theory Spec2Isabelle
  imports Complex_Main "HOL-Library.AList" "HOL-Library.Multiset"
begin

section \<open>B2B marketing attribution engine: data model\<close>

text \<open>
  The engine of \<^verbatim>\<open>backend/app/services/b2b_attribution_engine.py\<close> and the service
  facade of \<^verbatim>\<open>backend/app/services/attribution_service.py\<close>, embedded as HOL functions.

  Conventions of the embedding:
  \<^item> a Python \<^verbatim>\<open>float\<close> is a \<^typ>\<open>real\<close> (rounding, overflow and NaN are idealised away;
    a float division by zero is written out as the error \<open>ZeroDivisionError\<close>);
  \<^item> a Python \<^verbatim>\<open>int\<close> is an \<^typ>\<open>int\<close>;
  \<^item> a \<^verbatim>\<open>datetime\<close> is the number of microseconds since an epoch, so that
    \<^verbatim>\<open>(a - b).days\<close> is a floor division by the microseconds of one day;
  \<^item> a \<^verbatim>\<open>dict\<close> is an association list in insertion order; storing under a key that is
    present replaces the value in place, storing under a new key appends
    (\<^const>\<open>AList.update\<close>), and \<^const>\<open>map_of\<close> reads it;
  \<^item> an exception is the \<open>Inl\<close> branch of a sum;
  \<^item> the log calls of the engine are left out; those of the facade are events of its
    outcome.
\<close>

datatype B2BStageType =
  AWARENESS | INTEREST | CONSIDERATION | INTENT | EVALUATION | PURCHASE

datatype TouchpointType =
  CONTENT_DOWNLOAD | WEBINAR_ATTENDANCE | DEMO_REQUEST | TRADE_SHOW | SALES_CALL
  | EMAIL_ENGAGEMENT | WEBSITE_VISIT | SOCIAL_ENGAGEMENT | DIRECT_MAIL | REFERRAL

type_synonym datetime = int

record LeadData =
  lead_id :: string
  account_id :: string
  lead_score :: int
  demographic_score :: int
  behavioral_score :: int
  firmographic_score :: int
  created_date :: datetime
  stage :: B2BStageType
  source :: string
  lead_quality_tier :: string

record OpportunityData =
  opportunity_id :: string
  account_id :: string
  lead_ids :: "string list"
  stage :: string
  probability :: real
  amount :: real
  created_date :: datetime
  close_date :: "datetime option"
  sales_cycle_days :: int
  deal_size_tier :: string
  decision_makers_count :: int
  influencers_count :: int

record TouchpointData =
  touchpoint_id :: string
  lead_id :: string
  account_id :: string
  timestamp :: datetime
  touchpoint_type :: TouchpointType
  channel :: string
  campaign_id :: "string option"
  content_id :: "string option"
  engagement_score :: real
  stage_influence :: B2BStageType
  cost :: real
  is_sales_touch :: bool
  is_marketing_touch :: bool
  sales_rep_id :: "string option"

datatype error = ZeroDivisionError | KeyError string | WriterError string | LoadError string

type_synonym attribution = "(string \<times> real) list"

text \<open>\<^verbatim>\<open>d.get(k, dflt)\<close> on a dictionary read as a map.\<close>

definition dict_get :: "('k \<rightharpoonup> 'v) \<Rightarrow> 'k \<Rightarrow> 'v \<Rightarrow> 'v" where
  "dict_get d k dflt = (case d k of None \<Rightarrow> dflt | Some v \<Rightarrow> v)"

text \<open>\<^verbatim>\<open>dict(pairs)\<close> and dictionary comprehensions: later pairs overwrite earlier ones.\<close>

definition dict_of_pairs :: "('k \<times> 'v) list \<Rightarrow> ('k \<times> 'v) list" where
  "dict_of_pairs ps = fold (\<lambda>(k, v) d. AList.update k v d) ps []"

section \<open>Engine: constant tables\<close>

fun touchpoint_type_weights :: "TouchpointType \<rightharpoonup> real" where
  "touchpoint_type_weights DEMO_REQUEST = Some 1.5"
| "touchpoint_type_weights SALES_CALL = Some 1.4"
| "touchpoint_type_weights WEBINAR_ATTENDANCE = Some 1.2"
| "touchpoint_type_weights CONTENT_DOWNLOAD = Some 1.1"
| "touchpoint_type_weights TRADE_SHOW = Some 1.3"
| "touchpoint_type_weights EMAIL_ENGAGEMENT = Some 0.8"
| "touchpoint_type_weights WEBSITE_VISIT = Some 0.6"
| "touchpoint_type_weights SOCIAL_ENGAGEMENT = Some 0.7"
| "touchpoint_type_weights DIRECT_MAIL = Some 0.9"
| "touchpoint_type_weights REFERRAL = Some 1.6"

fun stage_progression_weights :: "B2BStageType \<rightharpoonup> real" where
  "stage_progression_weights AWARENESS = Some 0.8"
| "stage_progression_weights INTEREST = Some 1.0"
| "stage_progression_weights CONSIDERATION = Some 1.2"
| "stage_progression_weights INTENT = Some 1.4"
| "stage_progression_weights EVALUATION = Some 1.5"
| "stage_progression_weights PURCHASE = Some 1.3"

definition lead_quality_multipliers :: "string \<rightharpoonup> real" where
  "lead_quality_multipliers =
     map_of [(''A'', 1.5), (''B'', 1.2), (''C'', 1.0), (''D'', 0.7)]"

definition get_deal_size_multiplier :: "string \<Rightarrow> real" where
  "get_deal_size_multiplier tier =
     dict_get (map_of [(''enterprise'', 1.4), (''mid-market'', 1.2), (''smb'', 1.0)])
       tier 1.0"

definition get_expected_cycle_days :: "string \<Rightarrow> int" where
  "get_expected_cycle_days tier =
     dict_get (map_of [(''enterprise'', 270), (''mid-market'', 150), (''smb'', 60)])
       tier 180"

definition calculate_account_complexity :: "OpportunityData \<Rightarrow> real" where
  "calculate_account_complexity opportunity =
     (let complexity = 1.0;
          complexity =
            (if deal_size_tier opportunity = ''enterprise'' then complexity + 0.3
             else if deal_size_tier opportunity = ''mid-market'' then complexity + 0.15
             else complexity);
          total_stakeholders =
            decision_makers_count opportunity + influencers_count opportunity;
          complexity =
            (if total_stakeholders > 5 then complexity + 0.2
             else if total_stakeholders > 3 then complexity + 0.1
             else complexity);
          complexity =
            (if sales_cycle_days opportunity > 365 then complexity + 0.25
             else if sales_cycle_days opportunity > 180 then complexity + 0.15
             else complexity)
      in complexity)"

section \<open>Engine: the five factor calculators\<close>

subsection \<open>Time-weighted attribution\<close>

text \<open>\<^verbatim>\<open>(a - b).days\<close>: whole days of a difference of instants, rounded down.\<close>

definition timedelta_days :: "datetime \<Rightarrow> datetime \<Rightarrow> int" where
  "timedelta_days a b = (a - b) div 86400000000"

definition half_life_days :: "int \<Rightarrow> OpportunityData \<Rightarrow> real" where
  "half_life_days avg_sales_cycle_days opportunity =
     (let cycle_days =
            (if sales_cycle_days opportunity \<noteq> 0 then sales_cycle_days opportunity
             else avg_sales_cycle_days)
      in max (real_of_int cycle_days * 0.3) 14)"

definition conversion_date :: "OpportunityData \<Rightarrow> datetime" where
  "conversion_date opportunity =
     (case close_date opportunity of
        Some d \<Rightarrow> d
      | None \<Rightarrow> OpportunityData.created_date opportunity)"

definition time_decay_weight :: "real \<Rightarrow> datetime \<Rightarrow> TouchpointData \<Rightarrow> real" where
  "time_decay_weight half_life conv touchpoint =
     (let days_to_conversion = timedelta_days conv (timestamp touchpoint);
          days_to_conversion = max 0 days_to_conversion;
          weight = exp (- real_of_int days_to_conversion / half_life);
          weight = weight * dict_get touchpoint_type_weights (touchpoint_type touchpoint) 1.0
      in weight)"

text \<open>
  The inner loop of an opportunity: it fills a fresh dictionary \<open>touchpoint_weights\<close> and
  adds every weight to \<open>total_weight\<close>. The function is shared by the time-weighted and
  the account-based calculator, which differ in the weight \<open>w\<close> of a touchpoint.
\<close>

definition collect_weights ::
  "(TouchpointData \<Rightarrow> real) \<Rightarrow> TouchpointData list \<Rightarrow> attribution \<times> real" where
  "collect_weights w touchpoints =
     fold (\<lambda>touchpoint (touchpoint_weights, total_weight).
             (AList.update (touchpoint_id touchpoint) (w touchpoint) touchpoint_weights,
              total_weight + w touchpoint))
          touchpoints ([], 0)"

text \<open>
  The normalising loop: when the total is positive, every entry of \<open>touchpoint_weights\<close>
  is stored (by assignment) into the output dictionary as its share of the amount.
\<close>

definition assign_normalized :: "attribution \<times> real \<Rightarrow> real \<Rightarrow> attribution \<Rightarrow> attribution" where
  "assign_normalized tw amt attribution_weights =
     (case tw of (touchpoint_weights, total_weight) \<Rightarrow>
        if total_weight > 0
        then fold (\<lambda>(tp_id, weight) acc. AList.update tp_id ((weight / total_weight) * amt) acc)
                  touchpoint_weights attribution_weights
        else attribution_weights)"

definition time_decay_opportunity ::
  "TouchpointData list \<Rightarrow> int \<Rightarrow> OpportunityData \<Rightarrow> attribution \<Rightarrow> attribution" where
  "time_decay_opportunity touchpoint_data avg_sales_cycle_days opportunity attribution_weights =
     (let opp_touchpoints =
            filter (\<lambda>tp. TouchpointData.account_id tp = OpportunityData.account_id opportunity)
                   touchpoint_data
      in if opp_touchpoints = [] then attribution_weights
         else assign_normalized
                (collect_weights
                   (time_decay_weight (half_life_days avg_sales_cycle_days opportunity)
                                      (conversion_date opportunity))
                   opp_touchpoints)
                (amount opportunity) attribution_weights)"

definition calculate_b2b_time_decay ::
  "TouchpointData list \<Rightarrow> OpportunityData list \<Rightarrow> int \<Rightarrow> attribution" where
  "calculate_b2b_time_decay touchpoint_data opportunity_data avg_sales_cycle_days =
     fold (time_decay_opportunity touchpoint_data avg_sales_cycle_days) opportunity_data []"

subsection \<open>Quality-weighted attribution\<close>

definition lead_quality_weight :: "LeadData \<Rightarrow> TouchpointData \<Rightarrow> real" where
  "lead_quality_weight lead touchpoint =
     (let base_weight = engagement_score touchpoint / 100.0;
          quality_multiplier = dict_get lead_quality_multipliers (lead_quality_tier lead) 1.0;
          score_multiplier = min (real_of_int (lead_score lead) / 100.0) 2.0;
          demo_bonus = 1 + (real_of_int (demographic_score lead) / 1000.0);
          firmo_bonus = 1 + (real_of_int (firmographic_score lead) / 1000.0)
      in base_weight * quality_multiplier * score_multiplier * demo_bonus * firmo_bonus)"

definition calculate_lead_quality_impact ::
  "LeadData list \<Rightarrow> TouchpointData list \<Rightarrow> attribution" where
  "calculate_lead_quality_impact lead_data touchpoint_data =
     (let lead_lookup = dict_of_pairs (map (\<lambda>lead. (LeadData.lead_id lead, lead)) lead_data)
      in fold (\<lambda>touchpoint attribution_weights.
                 case map_of lead_lookup (TouchpointData.lead_id touchpoint) of
                   None \<Rightarrow> attribution_weights
                 | Some lead \<Rightarrow>
                     AList.update (touchpoint_id touchpoint)
                       (lead_quality_weight lead touchpoint) attribution_weights)
              touchpoint_data [])"

subsection \<open>Account-based attribution\<close>

definition group_by_account :: "TouchpointData list \<Rightarrow> (string \<times> TouchpointData list) list" where
  "group_by_account touchpoint_data =
     fold (\<lambda>touchpoint account_touchpoints.
             case map_of account_touchpoints (TouchpointData.account_id touchpoint) of
               None \<Rightarrow>
                 AList.update (TouchpointData.account_id touchpoint) [touchpoint]
                   account_touchpoints
             | Some tps \<Rightarrow>
                 AList.update (TouchpointData.account_id touchpoint) (tps @ [touchpoint])
                   account_touchpoints)
          touchpoint_data []"

definition account_weight :: "OpportunityData \<Rightarrow> TouchpointData \<Rightarrow> real" where
  "account_weight opportunity touchpoint =
     (let complexity_multiplier = calculate_account_complexity opportunity;
          committee_size = decision_makers_count opportunity + influencers_count opportunity;
          committee_factor = 1 + (real_of_int committee_size * 0.1);
          deal_size_multiplier = get_deal_size_multiplier (deal_size_tier opportunity);
          base_weight =
            dict_get touchpoint_type_weights (touchpoint_type touchpoint) 1.0
            * (engagement_score touchpoint / 100.0);
          base_weight =
            (if is_sales_touch touchpoint then base_weight * 1.3
             else if is_marketing_touch touchpoint then base_weight * 1.0
             else base_weight)
      in base_weight * complexity_multiplier * committee_factor * deal_size_multiplier)"

definition account_level_opportunity ::
  "(string \<times> TouchpointData list) list \<Rightarrow> OpportunityData \<Rightarrow> attribution \<Rightarrow> attribution" where
  "account_level_opportunity account_touchpoints opportunity attribution_weights =
     (let touchpoints =
            dict_get (map_of account_touchpoints) (OpportunityData.account_id opportunity) []
      in if touchpoints = [] then attribution_weights
         else assign_normalized (collect_weights (account_weight opportunity) touchpoints)
                (amount opportunity) attribution_weights)"

definition calculate_account_level_attribution ::
  "OpportunityData list \<Rightarrow> TouchpointData list \<Rightarrow> attribution" where
  "calculate_account_level_attribution opportunity_data touchpoint_data =
     fold (account_level_opportunity (group_by_account touchpoint_data)) opportunity_data []"

subsection \<open>Stage-progression attribution\<close>

definition stage_progression_weight :: "TouchpointData \<Rightarrow> real" where
  "stage_progression_weight touchpoint =
     (let base_weight = engagement_score touchpoint / 100.0;
          stage_weight = dict_get stage_progression_weights (stage_influence touchpoint) 1.0;
          type_weight = dict_get touchpoint_type_weights (touchpoint_type touchpoint) 1.0
      in base_weight * stage_weight * type_weight)"

definition calculate_stage_progression_attribution :: "TouchpointData list \<Rightarrow> attribution" where
  "calculate_stage_progression_attribution touchpoint_data =
     fold (\<lambda>touchpoint attribution_weights.
             AList.update (touchpoint_id touchpoint) (stage_progression_weight touchpoint)
               attribution_weights)
          touchpoint_data []"

subsection \<open>Pipeline-velocity attribution\<close>

definition velocity_bonus :: "OpportunityData \<Rightarrow> real" where
  "velocity_bonus opportunity =
     (let actual_cycle = sales_cycle_days opportunity;
          expected_cycle = get_expected_cycle_days (deal_size_tier opportunity)
      in if actual_cycle < expected_cycle
         then 1 + (real_of_int (expected_cycle - actual_cycle) / real_of_int expected_cycle) * 0.5
         else max 0.5
                (1 - (real_of_int (actual_cycle - expected_cycle) / real_of_int expected_cycle)
                     * 0.3))"

definition velocity_weight :: "OpportunityData \<Rightarrow> TouchpointData \<Rightarrow> real" where
  "velocity_weight opportunity touchpoint =
     (let base_weight = engagement_score touchpoint / 100.0;
          velocity_impact =
            (if touchpoint_type touchpoint \<in> set [DEMO_REQUEST, SALES_CALL]
             then velocity_bonus opportunity * 1.2
             else velocity_bonus opportunity)
      in base_weight * velocity_impact)"

definition velocity_opportunity ::
  "TouchpointData list \<Rightarrow> OpportunityData \<Rightarrow> attribution \<Rightarrow> attribution" where
  "velocity_opportunity touchpoint_data opportunity attribution_weights =
     (let opp_touchpoints =
            filter (\<lambda>tp. TouchpointData.account_id tp = OpportunityData.account_id opportunity)
                   touchpoint_data
      in if opp_touchpoints = [] then attribution_weights
         else fold (\<lambda>touchpoint acc.
                      AList.update (touchpoint_id touchpoint)
                        (velocity_weight opportunity touchpoint) acc)
                   opp_touchpoints attribution_weights)"

definition calculate_pipeline_velocity_impact ::
  "OpportunityData list \<Rightarrow> TouchpointData list \<Rightarrow> attribution" where
  "calculate_pipeline_velocity_impact opportunity_data touchpoint_data =
     fold (velocity_opportunity touchpoint_data) opportunity_data []"

section \<open>Engine: combiner and summary\<close>

definition default_weights :: "(string \<times> real) list" where
  "default_weights =
     [(''time'', 0.25), (''quality'', 0.25), (''account'', 0.25), (''stage'', 0.15),
      (''velocity'', 0.10)]"

text \<open>\<^verbatim>\<open>weights[k]\<close>: a missing key raises \<open>KeyError\<close>.\<close>

definition weight_of :: "(string \<times> real) list \<Rightarrow> string \<Rightarrow> error + real" where
  "weight_of weights k = (case map_of weights k of None \<Rightarrow> Inl (KeyError k) | Some v \<Rightarrow> Inr v)"

definition bind :: "error + 'a \<Rightarrow> ('a \<Rightarrow> error + 'b) \<Rightarrow> error + 'b" where
  "bind r f = (case r of Inl e \<Rightarrow> Inl e | Inr v \<Rightarrow> f v)"

definition combined_score ::
  "attribution \<Rightarrow> attribution \<Rightarrow> attribution \<Rightarrow> attribution \<Rightarrow> attribution
     \<Rightarrow> (string \<times> real) list \<Rightarrow> string \<Rightarrow> error + real" where
  "combined_score time_weighted quality_weighted account_based stage_weighted velocity_impact
       weights tp_id =
     bind (weight_of weights ''time'') (\<lambda>w_time.
     bind (weight_of weights ''quality'') (\<lambda>w_quality.
     bind (weight_of weights ''account'') (\<lambda>w_account.
     bind (weight_of weights ''stage'') (\<lambda>w_stage.
     bind (weight_of weights ''velocity'') (\<lambda>w_velocity.
       Inr (dict_get (map_of time_weighted) tp_id 0 * w_time
            + dict_get (map_of quality_weighted) tp_id 0 * w_quality
            + dict_get (map_of account_based) tp_id 0 * w_account
            + dict_get (map_of stage_weighted) tp_id 0 * w_stage
            + dict_get (map_of velocity_impact) tp_id 0 * w_velocity))))))"

fun combine_loop :: "(string \<Rightarrow> error + real) \<Rightarrow> string list \<Rightarrow> attribution \<Rightarrow> error + attribution" where
  "combine_loop score [] combined_attribution = Inr combined_attribution"
| "combine_loop score (tp_id # ids) combined_attribution =
     (case score tp_id of
        Inl e \<Rightarrow> Inl e
      | Inr combined \<Rightarrow> combine_loop score ids (AList.update tp_id combined combined_attribution))"

text \<open>
  The combiner collects the keys of the five maps in a Python \<^verbatim>\<open>set\<close> and loops over
  the set. The order in which a set of strings is visited depends on the hash seed of the
  process; it is the parameter \<open>set_order\<close>, which takes the keys in the order they were
  added to the set to the order in which the loop visits them.
\<close>

definition combine_b2b_attribution_factors ::
  "(string list \<Rightarrow> string list) \<Rightarrow> attribution \<Rightarrow> attribution \<Rightarrow> attribution \<Rightarrow> attribution
     \<Rightarrow> attribution \<Rightarrow> (string \<times> real) list option \<Rightarrow> error + attribution" where
  "combine_b2b_attribution_factors set_order time_weighted quality_weighted account_based
       stage_weighted velocity_impact weights =
     (let weights = (case weights of None \<Rightarrow> default_weights | Some w \<Rightarrow> w);
          all_touchpoint_ids =
            set_order (concat (map (map fst)
              [time_weighted, quality_weighted, account_based, stage_weighted, velocity_impact]))
      in combine_loop
           (combined_score time_weighted quality_weighted account_based stage_weighted
              velocity_impact weights)
           all_touchpoint_ids [])"

record TopTouchpoint =
  touchpoint_id :: string
  attribution_value :: real
  percentage :: real

record AttributionDistribution =
  top_20_percent :: real
  bottom_20_percent :: real

record AttributionSummary =
  total_attribution_value :: real
  touchpoint_count :: nat
  average_attribution_per_touchpoint :: real
  top_contributing_touchpoints :: "TopTouchpoint list"
  attribution_distribution :: AttributionDistribution

text \<open>
  \<^verbatim>\<open>sorted(items, key=lambda x: x[1], reverse=True)\<close>: a stable sort by descending
  value; items of equal value keep the order they have in the dictionary.
\<close>

definition sorted_touchpoints :: "attribution \<Rightarrow> attribution" where
  "sorted_touchpoints attribution_results = sort_key (\<lambda>x. - snd x) attribution_results"

text \<open>
  The summary of an empty dictionary is the empty dictionary, here \<open>None\<close>. The
  percentage of a top touchpoint divides by the total, unguarded.
\<close>

definition generate_attribution_summary :: "attribution \<Rightarrow> error + AttributionSummary option" where
  "generate_attribution_summary attribution_results =
     (if attribution_results = [] then Inr None
      else
        let total_attribution = sum_list (map snd attribution_results);
            count = length attribution_results;
            ranked = sorted_touchpoints attribution_results;
            top_touchpoints = take 5 ranked
        in if top_touchpoints \<noteq> [] \<and> total_attribution = 0 then Inl ZeroDivisionError
           else Inr (Some
             \<lparr> total_attribution_value = total_attribution,
               touchpoint_count = count,
               average_attribution_per_touchpoint =
                 (if count > 0 then total_attribution / real count else 0),
               top_contributing_touchpoints =
                 map (\<lambda>(tp_id, v).
                        \<lparr> touchpoint_id = tp_id, attribution_value = v,
                          percentage = (v / total_attribution) * 100 \<rparr>)
                     top_touchpoints,
               attribution_distribution =
                 \<lparr> top_20_percent =
                     sum_list (map snd (dict_of_pairs (take (max 1 (count div 5)) ranked))),
                   bottom_20_percent =
                     sum_list (map snd (dict_of_pairs
                       (drop (count - max 1 (count div 5)) ranked))) \<rparr> \<rparr>))"

section \<open>Engine: the master attribution model\<close>

record AttributionResults =
  time_weighted_attribution :: attribution
  quality_weighted_attribution :: attribution
  account_based_attribution :: attribution
  stage_progression_attribution :: attribution
  pipeline_velocity_attribution :: attribution
  combined_b2b_attribution :: attribution
  attribution_summary :: "AttributionSummary option"

definition b2b_specific_attribution ::
  "(string list \<Rightarrow> string list) \<Rightarrow> LeadData list \<Rightarrow> OpportunityData list
     \<Rightarrow> TouchpointData list \<Rightarrow> error + AttributionResults" where
  "b2b_specific_attribution set_order lead_data opportunity_data touchpoint_data =
     (let time_weighted = calculate_b2b_time_decay touchpoint_data opportunity_data 180;
          quality_weighted = calculate_lead_quality_impact lead_data touchpoint_data;
          account_based = calculate_account_level_attribution opportunity_data touchpoint_data;
          stage_weighted = calculate_stage_progression_attribution touchpoint_data;
          velocity_impact = calculate_pipeline_velocity_impact opportunity_data touchpoint_data
      in bind (combine_b2b_attribution_factors set_order time_weighted quality_weighted
                 account_based stage_weighted velocity_impact None)
           (\<lambda>combined_attribution.
      bind (generate_attribution_summary combined_attribution)
           (\<lambda>summary.
        Inr \<lparr> time_weighted_attribution = time_weighted,
              quality_weighted_attribution = quality_weighted,
              account_based_attribution = account_based,
              stage_progression_attribution = stage_weighted,
              pipeline_velocity_attribution = velocity_impact,
              combined_b2b_attribution = combined_attribution,
              attribution_summary = summary \<rparr>)))"

section \<open>Analyzer: channel performance\<close>

text \<open>\<^verbatim>\<open>float('inf')\<close> is a value of the return-on-investment field only.\<close>

datatype pyfloat = Finite real | Infinity

fun type_value :: "TouchpointType \<Rightarrow> string" where
  "type_value CONTENT_DOWNLOAD = ''content_download''"
| "type_value WEBINAR_ATTENDANCE = ''webinar_attendance''"
| "type_value DEMO_REQUEST = ''demo_request''"
| "type_value TRADE_SHOW = ''trade_show''"
| "type_value SALES_CALL = ''sales_call''"
| "type_value EMAIL_ENGAGEMENT = ''email_engagement''"
| "type_value WEBSITE_VISIT = ''website_visit''"
| "type_value SOCIAL_ENGAGEMENT = ''social_engagement''"
| "type_value DIRECT_MAIL = ''direct_mail''"
| "type_value REFERRAL = ''referral''"

text \<open>
  The entry of a channel after the first loop, and after the second loop, which adds
  \<open>roi\<close> and \<open>cost_per_attribution\<close>. The set of type values stays a set: the order of
  \<^verbatim>\<open>list(a_set)\<close> is not determined by the program.
\<close>

record ChannelTotals =
  total_attribution :: real
  touchpoint_count :: nat
  total_cost :: real
  touchpoint_types :: "string set"

record ChannelMetrics = ChannelTotals +
  roi :: pyfloat
  cost_per_attribution :: real

definition touchpoint_lookup :: "TouchpointData list \<Rightarrow> (string \<times> TouchpointData) list" where
  "touchpoint_lookup touchpoint_data =
     dict_of_pairs (map (\<lambda>tp. (TouchpointData.touchpoint_id tp, tp)) touchpoint_data)"

definition channel_totals ::
  "attribution \<Rightarrow> TouchpointData list \<Rightarrow> (string \<times> ChannelTotals) list" where
  "channel_totals attribution_results touchpoint_data =
     fold (\<lambda>(tp_id, value) channel_performance.
             case map_of (touchpoint_lookup touchpoint_data) tp_id of
               None \<Rightarrow> channel_performance
             | Some touchpoint \<Rightarrow>
                 let m = dict_get (map_of channel_performance) (channel touchpoint)
                           \<lparr> total_attribution = 0, touchpoint_count = 0, total_cost = 0,
                             touchpoint_types = {} \<rparr>
                 in AList.update (channel touchpoint)
                      \<lparr> total_attribution = total_attribution m + value,
                        touchpoint_count = ChannelTotals.touchpoint_count m + 1,
                        total_cost = total_cost m + cost touchpoint,
                        touchpoint_types =
                          insert (type_value (touchpoint_type touchpoint)) (touchpoint_types m) \<rparr>
                      channel_performance)
          attribution_results []"

definition channel_metrics :: "ChannelTotals \<Rightarrow> error + ChannelMetrics" where
  "channel_metrics m =
     (if total_cost m > 0 then
        (if total_attribution m = 0 then Inl ZeroDivisionError
         else Inr \<lparr> total_attribution = total_attribution m,
                    touchpoint_count = ChannelTotals.touchpoint_count m,
                    total_cost = total_cost m,
                    touchpoint_types = touchpoint_types m,
                    roi = Finite ((total_attribution m - total_cost m) / total_cost m),
                    cost_per_attribution = total_cost m / total_attribution m \<rparr>)
      else Inr \<lparr> total_attribution = total_attribution m,
                 touchpoint_count = ChannelTotals.touchpoint_count m,
                 total_cost = total_cost m,
                 touchpoint_types = touchpoint_types m,
                 roi = (if total_attribution m > 0 then Infinity else Finite 0),
                 cost_per_attribution = 0 \<rparr>)"

fun channel_metrics_loop :: "(string \<times> ChannelTotals) list \<Rightarrow> error + (string \<times> ChannelMetrics) list" where
  "channel_metrics_loop [] = Inr []"
| "channel_metrics_loop ((ch, m) # rest) =
     (case channel_metrics m of
        Inl e \<Rightarrow> Inl e
      | Inr m' \<Rightarrow>
          (case channel_metrics_loop rest of
             Inl e \<Rightarrow> Inl e
           | Inr rest' \<Rightarrow> Inr ((ch, m') # rest')))"

definition analyze_channel_performance ::
  "attribution \<Rightarrow> TouchpointData list \<Rightarrow> error + (string \<times> ChannelMetrics) list" where
  "analyze_channel_performance attribution_results touchpoint_data =
     channel_metrics_loop (channel_totals attribution_results touchpoint_data)"

section \<open>Analyzer: alignment score and grade\<close>

definition calculate_alignment_score :: "real \<Rightarrow> real \<Rightarrow> real \<Rightarrow> real" where
  "calculate_alignment_score sales_attr marketing_attr joint_attr =
     (let total_attr = sales_attr + marketing_attr + joint_attr in
      if total_attr = 0 then 0
      else
        let marketing_pct = (marketing_attr / total_attr) * 100;
            sales_pct = (sales_attr / total_attr) * 100;
            joint_pct = (joint_attr / total_attr) * 100;
            marketing_deviation = \<bar>marketing_pct - 40\<bar>;
            sales_deviation = \<bar>sales_pct - 40\<bar>;
            joint_deviation = \<bar>joint_pct - 20\<bar>;
            total_deviation = marketing_deviation + sales_deviation + joint_deviation
        in max 0 (100 - total_deviation))"

definition get_alignment_grade :: "real \<Rightarrow> string" where
  "get_alignment_grade score =
     (if score \<ge> 90 then ''A+''
      else if score \<ge> 80 then ''A''
      else if score \<ge> 70 then ''B''
      else if score \<ge> 60 then ''C''
      else if score \<ge> 50 then ''D''
      else ''F'')"

section \<open>Analyzer: sales and marketing alignment\<close>

record AlignmentAnalysis =
  sales_attribution :: real
  marketing_attribution :: real
  joint_attribution :: real
  sales_percentage :: real
  marketing_percentage :: real
  joint_percentage :: real
  alignment_score :: real

text \<open>
  One round of the loop over the combined map; the state is (sales, marketing, joint).
\<close>

definition alignment_step ::
  "TouchpointData list \<Rightarrow> string \<times> real \<Rightarrow> real \<times> real \<times> real \<Rightarrow> real \<times> real \<times> real" where
  "alignment_step touchpoint_data =
     (\<lambda>(tp_id, value) (sales, marketing, joint).
        case map_of (touchpoint_lookup touchpoint_data) tp_id of
          None \<Rightarrow> (sales, marketing, joint)
        | Some touchpoint \<Rightarrow>
            if is_sales_touch touchpoint \<and> is_marketing_touch touchpoint
            then (sales, marketing, joint + value)
            else if is_sales_touch touchpoint then (sales + value, marketing, joint)
            else if is_marketing_touch touchpoint then (sales, marketing + value, joint)
            else (sales, marketing, joint))"

definition alignment_totals :: "attribution \<Rightarrow> TouchpointData list \<Rightarrow> real \<times> real \<times> real" where
  "alignment_totals attribution_results touchpoint_data =
     fold (alignment_step touchpoint_data) attribution_results (0, 0, 0)"

definition analyze_sales_marketing_alignment ::
  "attribution \<Rightarrow> TouchpointData list \<Rightarrow> AlignmentAnalysis" where
  "analyze_sales_marketing_alignment attribution_results touchpoint_data =
     (case alignment_totals attribution_results touchpoint_data of
        (sales, marketing, joint) \<Rightarrow>
          let total_attribution = sales + marketing + joint in
          \<lparr> sales_attribution = sales,
            marketing_attribution = marketing,
            joint_attribution = joint,
            sales_percentage =
              (if total_attribution > 0 then sales / total_attribution * 100 else 0),
            marketing_percentage =
              (if total_attribution > 0 then marketing / total_attribution * 100 else 0),
            joint_percentage =
              (if total_attribution > 0 then joint / total_attribution * 100 else 0),
            alignment_score = calculate_alignment_score sales marketing joint \<rparr>)"

section \<open>Service facade: the calculate operation\<close>

record ResultMetadata =
  leads_analyzed :: nat
  opportunities_analyzed :: nat
  touchpoints_analyzed :: nat
  analysis_date :: datetime
  attribution_weights :: "(string \<times> real) list option"

record ComprehensiveResults = AttributionResults +
  channel_performance :: "(string \<times> ChannelMetrics) list"
  sales_marketing_alignment :: AlignmentAnalysis
  metadata :: ResultMetadata

text \<open>The document handed to the database session.\<close>

record AttributionResult =
  model_name :: string
  results :: ComprehensiveResults
  created_at :: datetime
  stored_account_ids :: "string list option"
  model_type :: string

text \<open>
  The collaborators of the facade: the outcome of loading the three record lists through
  the session (\<^verbatim>\<open>_load_b2b_data\<close>), the outcome of adding and committing a document
  (\<open>None\<close> when it succeeds, the exception otherwise), the two readings of the clock, and
  the set order of the process. Rolling the session back is taken to succeed.
\<close>

record Collaborators =
  load_b2b_data ::
    "string list option \<Rightarrow> datetime option \<Rightarrow> datetime option
       \<Rightarrow> error + (LeadData list \<times> OpportunityData list \<times> TouchpointData list)"
  commit :: "AttributionResult \<Rightarrow> error option"
  utcnow_analysis :: datetime
  utcnow_store :: datetime
  hash_order :: "string list \<Rightarrow> string list"

datatype event = LogInfo string | LogError string error | Rollback

text \<open>
  \<^verbatim>\<open>_store_attribution_results\<close>: a failure of the session is logged, the session is
  rolled back, and the exception is raised again.
\<close>

definition store_attribution_results ::
  "Collaborators \<Rightarrow> ComprehensiveResults \<Rightarrow> string list option \<Rightarrow> event list \<times> error option" where
  "store_attribution_results db res account_ids =
     (let attribution_result =
            \<lparr> model_name = ''B2B_Marketing_Attribution'',
              results = res,
              created_at = utcnow_store db,
              stored_account_ids = account_ids,
              model_type = ''b2b_comprehensive'' \<rparr>
      in case commit db attribution_result of
           None \<Rightarrow> ([LogInfo ''Attribution results stored successfully''], None)
         | Some e \<Rightarrow> ([LogError ''Error storing attribution results'' e, Rollback], Some e))"

text \<open>The body of the \<^verbatim>\<open>try\<close> block of \<^verbatim>\<open>calculate_b2b_attribution\<close>.\<close>

definition calculate_body ::
  "Collaborators \<Rightarrow> string list option \<Rightarrow> datetime option \<Rightarrow> datetime option
     \<Rightarrow> (string \<times> real) list option \<Rightarrow> event list \<times> (error + ComprehensiveResults)" where
  "calculate_body db account_ids date_from date_to weights =
     (case load_b2b_data db account_ids date_from date_to of
        Inl e \<Rightarrow> ([], Inl e)
      | Inr (lead_data, opportunity_data, touchpoint_data) \<Rightarrow>
     (case b2b_specific_attribution (hash_order db) lead_data opportunity_data touchpoint_data of
        Inl e \<Rightarrow> ([], Inl e)
      | Inr attribution_results \<Rightarrow>
     (case analyze_channel_performance (combined_b2b_attribution attribution_results)
             touchpoint_data of
        Inl e \<Rightarrow> ([], Inl e)
      | Inr channel_analysis \<Rightarrow>
          let alignment_analysis =
                analyze_sales_marketing_alignment (combined_b2b_attribution attribution_results)
                  touchpoint_data;
              comprehensive_results =
                AttributionResults.extend attribution_results
                  (ComprehensiveResults.fields channel_analysis alignment_analysis
                     \<lparr> leads_analyzed = length lead_data,
                       opportunities_analyzed = length opportunity_data,
                       touchpoints_analyzed = length touchpoint_data,
                       analysis_date = utcnow_analysis db,
                       attribution_weights = weights \<rparr>)
          in (case store_attribution_results db comprehensive_results account_ids of
                (events, Some e) \<Rightarrow> (events, Inl e)
              | (events, None) \<Rightarrow>
                  (events @ [LogInfo ''B2B attribution calculation completed successfully''],
                   Inr comprehensive_results)))))"

text \<open>
  \<^verbatim>\<open>calculate_b2b_attribution\<close>: any exception of the body is logged and raised again.
\<close>

definition calculate_b2b_attribution ::
  "Collaborators \<Rightarrow> string list option \<Rightarrow> datetime option \<Rightarrow> datetime option
     \<Rightarrow> (string \<times> real) list option \<Rightarrow> event list \<times> (error + ComprehensiveResults)" where
  "calculate_b2b_attribution db account_ids date_from date_to weights =
     (case calculate_body db account_ids date_from date_to weights of
        (events, Inl e) \<Rightarrow>
          (LogInfo ''Starting B2B attribution calculation'' # events
             @ [LogError ''Error in B2B attribution calculation'' e],
           Inl e)
      | (events, Inr res) \<Rightarrow>
          (LogInfo ''Starting B2B attribution calculation'' # events, Inr res))"

section \<open>Concrete inputs\<close>

text \<open>
  Two touchpoints of one account: a trade-show visit with no engagement that cost 10 and
  carries neither flag, and a fully engaged marketing e-mail at instant 0.
\<close>

definition tp_trade_show :: TouchpointData where
  "tp_trade_show =
     \<lparr> TouchpointData.touchpoint_id = ''tp_1'', lead_id = ''lead_1'', account_id = ''account_1'',
       timestamp = 0, touchpoint_type = TRADE_SHOW, channel = ''trade_show'',
       campaign_id = None, content_id = None, engagement_score = 0,
       stage_influence = AWARENESS, cost = 10, is_sales_touch = False,
       is_marketing_touch = False, sales_rep_id = None \<rparr>"

definition tp_email :: TouchpointData where
  "tp_email =
     \<lparr> TouchpointData.touchpoint_id = ''tp_2'', lead_id = ''lead_1'', account_id = ''account_1'',
       timestamp = 0, touchpoint_type = EMAIL_ENGAGEMENT, channel = ''email'',
       campaign_id = None, content_id = None, engagement_score = 100,
       stage_influence = INTEREST, cost = 0, is_sales_touch = False,
       is_marketing_touch = True, sales_rep_id = None \<rparr>"

definition lead_b :: LeadData where
  "lead_b =
     \<lparr> LeadData.lead_id = ''lead_1'', LeadData.account_id = ''account_1'', lead_score = 70,
       demographic_score = 60, behavioral_score = 60, firmographic_score = 60,
       LeadData.created_date = 0, LeadData.stage = INTEREST, source = ''web'',
       lead_quality_tier = ''B'' \<rparr>"

text \<open>Two won deals of the same account, closed at instant 0 after 60 days.\<close>

definition opp_100 :: OpportunityData where
  "opp_100 =
     \<lparr> opportunity_id = ''opp_1'', OpportunityData.account_id = ''account_1'',
       lead_ids = [''lead_1''], stage = ''Closed Won'', probability = 1, amount = 100,
       created_date = 0, close_date = Some 0, sales_cycle_days = 60, deal_size_tier = ''smb'',
       decision_makers_count = 1, influencers_count = 0 \<rparr>"

definition opp_200 :: OpportunityData where
  "opp_200 = opp_100 \<lparr> opportunity_id := ''opp_2'', amount := 200 \<rparr>"

text \<open>
  A session that loads one lead, one deal and the e-mail touchpoint and commits, and the
  same session with a writer that fails.
\<close>

definition db_ok :: Collaborators where
  "db_ok =
     \<lparr> load_b2b_data = (\<lambda>account_ids date_from date_to. Inr ([lead_b], [opp_100], [tp_email])),
       commit = (\<lambda>doc. None),
       utcnow_analysis = 1,
       utcnow_store = 2,
       hash_order = remdups \<rparr>"

definition db_writer_down :: Collaborators where
  "db_writer_down = db_ok \<lparr> commit := (\<lambda>doc. Some (WriterError ''database unavailable'')) \<rparr>"

text \<open>The weight vector (2, 2, 2, 1.2, 0.8), which sums to 8.\<close>

definition weights_sum_8 :: "(string \<times> real) list" where
  "weights_sum_8 =
     [(''time'', 2), (''quality'', 2), (''account'', 2), (''stage'', 1.2), (''velocity'', 0.8)]"

section \<open>Notions used to state the properties\<close>

text \<open>Every value of a map multiplied by a constant; keys and their order kept.\<close>

definition scale_values :: "real \<Rightarrow> attribution \<Rightarrow> attribution" where
  "scale_values c m = map (\<lambda>(k, v). (k, c * v)) m"



text \<open>The last opportunity of the list that belongs to an account, if there is one.\<close>

definition last_opportunity :: "OpportunityData list \<Rightarrow> string \<Rightarrow> OpportunityData option" where
  "last_opportunity opportunity_data a =
     find (\<lambda>opp. OpportunityData.account_id opp = a) (rev opportunity_data)"


text \<open>
  The preconditions of the data model on the input records: scores between 0 and 100,
  non-negative amounts, counts and costs.
\<close>

definition data_model_preconditions ::
  "LeadData list \<Rightarrow> OpportunityData list \<Rightarrow> TouchpointData list \<Rightarrow> bool" where
  "data_model_preconditions lead_data opportunity_data touchpoint_data \<longleftrightarrow>
     (\<forall>lead \<in> set lead_data.
        0 \<le> lead_score lead \<and> lead_score lead \<le> 100
        \<and> 0 \<le> demographic_score lead \<and> demographic_score lead \<le> 100
        \<and> 0 \<le> behavioral_score lead \<and> behavioral_score lead \<le> 100
        \<and> 0 \<le> firmographic_score lead \<and> firmographic_score lead \<le> 100)
     \<and> (\<forall>opp \<in> set opportunity_data.
        0 \<le> amount opp \<and> 0 \<le> decision_makers_count opp \<and> 0 \<le> influencers_count opp)
     \<and> (\<forall>tp \<in> set touchpoint_data.
        0 \<le> engagement_score tp \<and> engagement_score tp \<le> 100 \<and> 0 \<le> cost tp)"

text \<open>Every value of a map is at least 0.\<close>

definition nonneg_values :: "attribution \<Rightarrow> bool" where
  "nonneg_values m \<longleftrightarrow> (\<forall>(k, v) \<in> set m. 0 \<le> v)"

lemmas factor_defs =
  calculate_b2b_time_decay_def time_decay_opportunity_def collect_weights_def
  assign_normalized_def time_decay_weight_def half_life_days_def conversion_date_def
  timedelta_days_def calculate_lead_quality_impact_def lead_quality_weight_def
  lead_quality_multipliers_def calculate_account_level_attribution_def
  account_level_opportunity_def group_by_account_def account_weight_def
  calculate_account_complexity_def get_deal_size_multiplier_def
  calculate_stage_progression_attribution_def stage_progression_weight_def
  calculate_pipeline_velocity_impact_def velocity_opportunity_def velocity_weight_def
  velocity_bonus_def get_expected_cycle_days_def dict_get_def dict_of_pairs_def

lemmas combine_defs =
  combine_b2b_attribution_factors_def combined_score_def weight_of_def default_weights_def
  bind_def dict_get_def

lemmas input_defs =
  tp_trade_show_def tp_email_def lead_b_def opp_100_def opp_200_def db_ok_def
  db_writer_down_def weights_sum_8_def

section \<open>Alignment score and grade\<close>

lemma calculate_alignment_score_eq:
  "calculate_alignment_score s m j =
     (if s + m + j = 0 then 0
      else max 0 (100 - (\<bar>m / (s + m + j) * 100 - 40\<bar> + \<bar>s / (s + m + j) * 100 - 40\<bar>
                         + \<bar>j / (s + m + j) * 100 - 20\<bar>)))"
  unfolding calculate_alignment_score_def Let_def by (rule refl)

lemma calculate_alignment_score_bounds:
  "0 \<le> calculate_alignment_score s m j \<and> calculate_alignment_score s m j \<le> 100"
proof (cases "s + m + j = 0")
  case True
  then show ?thesis by (simp add: calculate_alignment_score_eq)
next
  case False
  define d where "d = \<bar>m / (s + m + j) * 100 - 40\<bar> + \<bar>s / (s + m + j) * 100 - 40\<bar>
                         + \<bar>j / (s + m + j) * 100 - 20\<bar>"
  have "0 \<le> d" unfolding d_def by (intro add_nonneg_nonneg abs_ge_zero)
  moreover have "calculate_alignment_score s m j = max 0 (100 - d)"
    using False unfolding d_def by (simp only: calculate_alignment_score_eq if_False)
  ultimately show ?thesis by simp
qed

text \<open>
  Claim C5. For non-negative sales, marketing and joint totals the alignment score is 0
  when the three sum to zero and otherwise \<open>max 0 (100 - deviations)\<close>, the deviations
  being those of the percentage shares from 40, 40 and 20; the score lies between 0 and
  100; and the grade is the function of the score with the boundaries 90 (A+), 80 (A),
  70 (B), 60 (C), 50 (D), below that F.
\<close>

theorem alignment_score_and_grade:
  assumes "0 \<le> s" and "0 \<le> m" and "0 \<le> j"
  shows "calculate_alignment_score s m j =
           (if s + m + j = 0 then 0
            else max 0 (100 - (\<bar>m / (s + m + j) * 100 - 40\<bar> + \<bar>s / (s + m + j) * 100 - 40\<bar>
                               + \<bar>j / (s + m + j) * 100 - 20\<bar>)))
         \<and> 0 \<le> calculate_alignment_score s m j
         \<and> calculate_alignment_score s m j \<le> 100
         \<and> get_alignment_grade (calculate_alignment_score s m j) =
             (let score = calculate_alignment_score s m j in
              if 90 \<le> score then ''A+'' else if 80 \<le> score then ''A''
              else if 70 \<le> score then ''B'' else if 60 \<le> score then ''C''
              else if 50 \<le> score then ''D'' else ''F'')"
  using calculate_alignment_score_bounds[of s m j] calculate_alignment_score_eq[of s m j]
  by (simp add: get_alignment_grade_def Let_def)

theorem alignment_score_and_grade_witness:
  "(0::real) \<le> 4000 \<and> (0::real) \<le> 2000
   \<and> calculate_alignment_score 4000 4000 2000 = 100
   \<and> get_alignment_grade (calculate_alignment_score 4000 4000 2000) = ''A+''"
  using alignment_score_and_grade[of 4000 4000 2000]
  by (simp add: Let_def get_alignment_grade_def)

section \<open>Channel performance: cost per attribution\<close>

text \<open>
  Claim C4 says that \<open>cost_per_attribution\<close> is total and is 0 for a channel whose
  attribution is 0. The code guards the division by the channel's cost, not by its
  attribution. Here the engine runs on the trade-show visit (engagement 0, cost 10) and the
  e-mail of the same account, with no lead and no deal: the combined map gives the visit
  the value 0, so the channel \<open>trade_show\<close> has a positive cost and no attribution, and the
  channel roll-up of that combined map raises \<open>ZeroDivisionError\<close>.
\<close>

theorem cost_per_attribution_zero_division:
  "map_sum id combined_b2b_attribution
       (b2b_specific_attribution remdups [] [] [tp_trade_show, tp_email])
     = Inr [(''tp_1'', 0), (''tp_2'', 3 / 25)]
   \<and> analyze_channel_performance [(''tp_1'', 0), (''tp_2'', 3 / 25)] [tp_trade_show, tp_email]
     = Inl ZeroDivisionError"
  by (simp add: b2b_specific_attribution_def factor_defs combine_defs input_defs
      generate_attribution_summary_def sorted_touchpoints_def Let_def
      analyze_channel_performance_def channel_totals_def touchpoint_lookup_def
      channel_metrics_def)

section \<open>Service facade: writer failures and the weights argument\<close>

lemma db_ok_succeeds: "isl (snd (calculate_b2b_attribution db_ok None None None None)) = False"
  by (simp add: calculate_b2b_attribution_def calculate_body_def store_attribution_results_def
      b2b_specific_attribution_def factor_defs combine_defs input_defs
      generate_attribution_summary_def sorted_touchpoints_def Let_def
      analyze_channel_performance_def channel_totals_def touchpoint_lookup_def
      channel_metrics_def)

text \<open>
  Claim C3 says that a failure of the writer does not make the calculate operation fail.
  It does: on the session that loads one lead, one deal and one touchpoint the computation
  succeeds (the call returns a result when the writer works), and with a failing writer the
  same call raises the writer's error.
\<close>

theorem writer_failure_counterexample:
  "isl (snd (calculate_b2b_attribution db_ok None None None None)) = False
   \<and> snd (calculate_b2b_attribution db_writer_down None None None None)
       = Inl (WriterError ''database unavailable'')"
  by (simp add: calculate_b2b_attribution_def calculate_body_def store_attribution_results_def
      b2b_specific_attribution_def factor_defs combine_defs input_defs
      generate_attribution_summary_def sorted_touchpoints_def Let_def
      analyze_channel_performance_def channel_totals_def touchpoint_lookup_def
      channel_metrics_def)

text \<open>
  Claim C3, amended. Whenever the computation succeeds (the call with a working writer
  returns the document \<open>res\<close>) and the writer fails with \<open>e\<close> on the document built from
  \<open>res\<close>, the failure is logged, the session is rolled back, the failure is logged again
  by the calculate operation, and the operation raises \<open>e\<close>.
\<close>

theorem writer_failure_is_raised:
  assumes "snd (calculate_b2b_attribution (db\<lparr>commit := (\<lambda>doc. None)\<rparr>) ids f t w) = Inr res"
      and "commit db \<lparr> model_name = ''B2B_Marketing_Attribution'', results = res,
                       created_at = utcnow_store db, stored_account_ids = ids,
                       model_type = ''b2b_comprehensive'' \<rparr> = Some e"
  shows "calculate_b2b_attribution db ids f t w =
           ([LogInfo ''Starting B2B attribution calculation'',
             LogError ''Error storing attribution results'' e, Rollback,
             LogError ''Error in B2B attribution calculation'' e], Inl e)"
  using assms
  by (auto simp: calculate_b2b_attribution_def calculate_body_def
      store_attribution_results_def Let_def split: sum.splits prod.splits option.splits)

theorem writer_failure_is_raised_witness:
  "calculate_b2b_attribution db_writer_down None None None None =
     ([LogInfo ''Starting B2B attribution calculation'',
       LogError ''Error storing attribution results'' (WriterError ''database unavailable''),
       Rollback,
       LogError ''Error in B2B attribution calculation'' (WriterError ''database unavailable'')],
      Inl (WriterError ''database unavailable''))"
proof -
  have eq: "db_writer_down\<lparr>commit := (\<lambda>doc. None)\<rparr> = db_ok"
    by (simp add: db_writer_down_def db_ok_def)
  obtain res where r: "snd (calculate_b2b_attribution db_ok None None None None) = Inr res"
    using db_ok_succeeds
    by (cases "snd (calculate_b2b_attribution db_ok None None None None)") auto
  have c: "commit db_writer_down
             \<lparr> model_name = ''B2B_Marketing_Attribution'', results = res,
               created_at = utcnow_store db_writer_down, stored_account_ids = None,
               model_type = ''b2b_comprehensive'' \<rparr>
           = Some (WriterError ''database unavailable'')"
    by (simp add: db_writer_down_def)
  show ?thesis
    using writer_failure_is_raised[of db_writer_down None None None None res, OF _ c] r eq
    by simp
qed

text \<open>
  Claim C9. The weights argument of the calculate operation reaches the metadata block
  and nothing else. Any two calls on the same collaborators that both return, return
  documents that differ at most in the echoed weights: the five factor maps, the combined
  map, the summary, the channel and the alignment analyses are the same. When the
  writer's outcome does not depend on the document, the whole outcome of the call (the
  events, and the result or the error) with the weights \<open>w2\<close> is that of the call with
  \<open>w1\<close>, but for the echoed weights.
\<close>

theorem weights_only_in_metadata:
  "(snd (calculate_b2b_attribution db ids f t w1) = Inr r1
      \<and> snd (calculate_b2b_attribution db ids f t w2) = Inr r2
    \<longrightarrow> r2 = r1\<lparr>metadata := (metadata r1)\<lparr>attribution_weights := w2\<rparr>\<rparr>
        \<and> attribution_weights (metadata r1) = w1)
   \<and> ((\<forall>d d'. commit db d = commit db d')
    \<longrightarrow> calculate_b2b_attribution db ids f t w2 =
          map_prod id
            (map_sum id (\<lambda>r. r\<lparr>metadata := (metadata r)\<lparr>attribution_weights := w2\<rparr>\<rparr>))
            (calculate_b2b_attribution db ids f t w1))"
proof (rule conjI)
  show "snd (calculate_b2b_attribution db ids f t w1) = Inr r1
      \<and> snd (calculate_b2b_attribution db ids f t w2) = Inr r2
    \<longrightarrow> r2 = r1\<lparr>metadata := (metadata r1)\<lparr>attribution_weights := w2\<rparr>\<rparr>
        \<and> attribution_weights (metadata r1) = w1"
    by (auto simp: calculate_b2b_attribution_def calculate_body_def
        store_attribution_results_def Let_def AttributionResults.extend_def
        ComprehensiveResults.fields_def split: sum.splits prod.splits option.splits)
next
  show "(\<forall>d d'. commit db d = commit db d')
    \<longrightarrow> calculate_b2b_attribution db ids f t w2 =
          map_prod id
            (map_sum id (\<lambda>r. r\<lparr>metadata := (metadata r)\<lparr>attribution_weights := w2\<rparr>\<rparr>))
            (calculate_b2b_attribution db ids f t w1)"
  proof
    assume "\<forall>d d'. commit db d = commit db d'"
    then obtain c where c: "\<And>d. commit db d = c" by metis
    show "calculate_b2b_attribution db ids f t w2 =
          map_prod id
            (map_sum id (\<lambda>r. r\<lparr>metadata := (metadata r)\<lparr>attribution_weights := w2\<rparr>\<rparr>))
            (calculate_b2b_attribution db ids f t w1)"
      by (auto simp: c calculate_b2b_attribution_def calculate_body_def
          store_attribution_results_def Let_def AttributionResults.extend_def
          ComprehensiveResults.fields_def split: sum.splits prod.splits option.splits)
  qed
qed

theorem weights_only_in_metadata_witness:
  "(\<forall>d d'. commit db_ok d = commit db_ok d')
   \<and> isl (snd (calculate_b2b_attribution db_ok None None None None)) = False
   \<and> calculate_b2b_attribution db_ok None None None (Some [(''time'', 1)]) =
       map_prod id
         (map_sum id
            (\<lambda>r. r\<lparr>metadata := (metadata r)\<lparr>attribution_weights := Some [(''time'', 1)]\<rparr>\<rparr>))
         (calculate_b2b_attribution db_ok None None None None)"
proof -
  have h: "\<forall>d d'. commit db_ok d = commit db_ok d'" by (simp add: db_ok_def)
  from weights_only_in_metadata[of db_ok None None None None _ "Some [(''time'', 1)]",
      THEN conjunct2] h
  show ?thesis using db_ok_succeeds by blast
qed

section \<open>Combiner: caller-supplied weights\<close>

lemma update_scale_values:
  "AList.update k (c * v) (scale_values c al) = scale_values c (AList.update k v al)"
  by (induction al) (auto simp: scale_values_def)

lemma combine_loop_scaled:
  assumes "\<And>k. score2 k = map_sum id ((*) c) (score1 k)"
  shows "combine_loop score2 ids (scale_values c acc)
           = map_sum id (scale_values c) (combine_loop score1 ids acc)"
proof (induction ids arbitrary: acc)
  case Nil
  then show ?case by simp
next
  case (Cons k ids)
  show ?case
  proof (cases "score1 k")
    case (Inl e)
    then show ?thesis by (simp add: assms)
  next
    case (Inr v)
    then show ?thesis
      using Cons.IH[of "AList.update k v acc"] by (simp add: assms update_scale_values)
  qed
qed

lemma combined_score_weights_sum_8:
  "combined_score tw qw ab sw vi weights_sum_8 k
     = map_sum id ((*) 8) (combined_score tw qw ab sw vi default_weights k)"
  by (simp add: combined_score_def weight_of_def bind_def weights_sum_8_def default_weights_def
      algebra_simps)

text \<open>
  Claim C2 says that the combiner renormalises the weights, so that (2, 2, 2, 1.2, 0.8)
  gives the output of the defaults. It does not: for a single touchpoint of time-weighted
  value 1 the defaults give 1/4 and the vector gives 2.
\<close>

theorem combine_renormalization_counterexample:
  "combine_b2b_attribution_factors remdups [(''tp_1'', 1)] [] [] [] [] (Some weights_sum_8)
     = Inr [(''tp_1'', 2)]
   \<and> combine_b2b_attribution_factors remdups [(''tp_1'', 1)] [] [] [] [] None
     = Inr [(''tp_1'', 1 / 4)]
   \<and> combine_b2b_attribution_factors remdups [(''tp_1'', 1)] [] [] [] [] (Some weights_sum_8)
     \<noteq> combine_b2b_attribution_factors remdups [(''tp_1'', 1)] [] [] [] [] None"
  by (simp add: combine_defs weights_sum_8_def)

text \<open>
  Claim C2, amended. The combiner uses the weights as the caller gives them. Passing the
  default vector explicitly is the same as passing none, and for every five factor maps
  the vector (2, 2, 2, 1.2, 0.8) gives the map of the defaults with every value multiplied
  by 8, the sum of the vector (same keys, same order).
\<close>

theorem combine_weights_not_renormalized:
  "combine_b2b_attribution_factors set_order tw qw ab sw vi (Some default_weights)
     = combine_b2b_attribution_factors set_order tw qw ab sw vi None
   \<and> combine_b2b_attribution_factors set_order tw qw ab sw vi (Some weights_sum_8)
     = map_sum id (scale_values 8)
         (combine_b2b_attribution_factors set_order tw qw ab sw vi None)"
  using combine_loop_scaled[of "combined_score tw qw ab sw vi weights_sum_8" 8
      "combined_score tw qw ab sw vi default_weights" _ "[]", OF combined_score_weights_sum_8]
  by (simp add: combine_b2b_attribution_factors_def scale_values_def)

section \<open>Summary: order of the top touchpoints\<close>




section \<open>Alignment analysis: the mass that is dropped\<close>








section \<open>Dictionaries filled by a loop of assignments\<close>

lemma last_opportunity_snoc:
  "last_opportunity (opps @ [opp]) a =
     (if OpportunityData.account_id opp = a then Some opp else last_opportunity opps a)"
  by (simp add: last_opportunity_def)

text \<open>Storing a list of items under their keys: what a key holds afterwards.\<close>

lemma map_of_fold_update_other:
  "k \<notin> key ` set xs \<Longrightarrow>
   map_of (fold (\<lambda>x acc. AList.update (key x) (val x) acc) xs acc) k = map_of acc k"
  by (induction xs arbitrary: acc) (auto simp: update_conv')

lemma map_of_fold_update_distinct:
  "distinct (map key xs) \<Longrightarrow> x \<in> set xs \<Longrightarrow>
   map_of (fold (\<lambda>x acc. AList.update (key x) (val x) acc) xs acc) (key x) = Some (val x)"
proof (induction xs arbitrary: acc)
  case Nil
  then show ?case by simp
next
  case (Cons y xs)
  show ?case
  proof (cases "x = y")
    case True
    then have "key x \<notin> key ` set xs" using Cons.prems by auto
    then show ?thesis using True by (simp add: map_of_fold_update_other update_conv')
  next
    case False
    then show ?thesis using Cons by auto
  qed
qed

lemma velocity_opportunity_fold:
  "velocity_opportunity tps opp acc =
     fold (\<lambda>tp acc. AList.update (TouchpointData.touchpoint_id tp) (velocity_weight opp tp) acc)
       (filter (\<lambda>tp. TouchpointData.account_id tp = OpportunityData.account_id opp) tps) acc"
  by (simp add: velocity_opportunity_def Let_def)

lemma id_not_in_other_account:
  assumes "distinct (map TouchpointData.touchpoint_id tps)" and "t \<in> set tps"
      and "TouchpointData.account_id t \<noteq> a"
  shows "TouchpointData.touchpoint_id t \<notin>
           TouchpointData.touchpoint_id ` set (filter (\<lambda>tp. TouchpointData.account_id tp = a) tps)"
proof
  assume "TouchpointData.touchpoint_id t \<in>
           TouchpointData.touchpoint_id ` set (filter (\<lambda>tp. TouchpointData.account_id tp = a) tps)"
  then obtain t' where t': "t' \<in> set tps" "TouchpointData.account_id t' = a"
      "TouchpointData.touchpoint_id t' = TouchpointData.touchpoint_id t" by auto
  then have "t' = t" using assms(1,2) by (meson distinct_map inj_onD)
  then show False using t' assms(3) by simp
qed

lemma map_of_velocity_opportunity:
  assumes "distinct (map TouchpointData.touchpoint_id tps)" and "t \<in> set tps"
  shows "map_of (velocity_opportunity tps opp acc) (TouchpointData.touchpoint_id t) =
           (if OpportunityData.account_id opp = TouchpointData.account_id t
            then Some (velocity_weight opp t)
            else map_of acc (TouchpointData.touchpoint_id t))"
proof (cases "OpportunityData.account_id opp = TouchpointData.account_id t")
  case True
  have d: "distinct (map TouchpointData.touchpoint_id
             (filter (\<lambda>tp. TouchpointData.account_id tp = OpportunityData.account_id opp) tps))"
    using assms(1) by (rule distinct_map_filter)
  have m: "t \<in> set (filter (\<lambda>tp. TouchpointData.account_id tp = OpportunityData.account_id opp) tps)"
    using assms(2) True by simp
  show ?thesis
    unfolding velocity_opportunity_fold
    using map_of_fold_update_distinct[OF d m, of "velocity_weight opp" acc] True by simp
next
  case False
  then have "TouchpointData.account_id t \<noteq> OpportunityData.account_id opp" by simp
  from id_not_in_other_account[OF assms this]
  show ?thesis
    unfolding velocity_opportunity_fold using False by (simp add: map_of_fold_update_other)
qed

text \<open>
  Claim C6, amended. The velocity loop stores each contribution under the touchpoint id
  by assignment. With unique touchpoint ids, the value of a touchpoint \<open>t\<close> in the output
  is the contribution \<open>(engagement_score / 100) * velocity_impact\<close> of the last opportunity
  of the list that shares \<open>t\<close>'s account, and \<open>t\<close> is absent when no opportunity does;
  contributions of earlier opportunities of the account are overwritten, not added.
\<close>

theorem velocity_last_opportunity_wins:
  assumes "distinct (map TouchpointData.touchpoint_id tps)" and "t \<in> set tps"
  shows "map_of (calculate_pipeline_velocity_impact opps tps) (TouchpointData.touchpoint_id t)
           = map_option (\<lambda>opp. velocity_weight opp t)
               (last_opportunity opps (TouchpointData.account_id t))"
proof (induction opps rule: rev_induct)
  case Nil
  then show ?case by (simp add: calculate_pipeline_velocity_impact_def last_opportunity_def)
next
  case (snoc opp opps)
  then show ?case
    using map_of_velocity_opportunity[OF assms]
    by (simp add: calculate_pipeline_velocity_impact_def last_opportunity_snoc)
qed

text \<open>
  Claim C6 says that a touchpoint whose account has several opportunities receives the
  sum of their contributions. With two deals of one account, each contributing 1 to the
  e-mail touchpoint, the output holds 1, not 2.
\<close>

theorem velocity_sum_counterexample:
  "map_of (calculate_pipeline_velocity_impact [opp_100, opp_200] [tp_email]) ''tp_2'' = Some 1
   \<and> velocity_weight opp_100 tp_email + velocity_weight opp_200 tp_email = 2"
  by (simp add: factor_defs input_defs)

theorem velocity_last_opportunity_wins_witness:
  "distinct (map TouchpointData.touchpoint_id [tp_email]) \<and> tp_email \<in> set [tp_email]
   \<and> map_of (calculate_pipeline_velocity_impact [opp_100, opp_200] [tp_email]) ''tp_2''
       = Some (velocity_weight opp_200 tp_email)
   \<and> velocity_weight opp_200 tp_email = 1"
  using velocity_last_opportunity_wins[of "[tp_email]" tp_email "[opp_100, opp_200]"]
  by (simp add: last_opportunity_def input_defs velocity_weight_def velocity_bonus_def get_expected_cycle_days_def dict_get_def)

section \<open>Time-weighted attribution: conservation\<close>

lemma type_weight_pos: "0 < dict_get touchpoint_type_weights ty 1"
  by (cases ty) (simp_all add: dict_get_def)

lemma time_decay_weight_pos: "0 < time_decay_weight h c tp"
  by (simp add: time_decay_weight_def Let_def type_weight_pos)

lemma collect_weights_fold:
  "fold (\<lambda>touchpoint (touchpoint_weights, total_weight).
             (AList.update (TouchpointData.touchpoint_id touchpoint) (w touchpoint) touchpoint_weights,
              total_weight + w touchpoint)) l (tw, tot)
   = (fold (\<lambda>tp acc. AList.update (TouchpointData.touchpoint_id tp) (w tp) acc) l tw,
      tot + sum_list (map w l))"
  by (induction l arbitrary: tw tot) (simp_all add: add.assoc)

lemma collect_weights_eq:
  "collect_weights w l =
     (fold (\<lambda>tp acc. AList.update (TouchpointData.touchpoint_id tp) (w tp) acc) l [],
      sum_list (map w l))"
  unfolding collect_weights_def by (simp add: collect_weights_fold)




lemma assign_normalized_fold:
  "0 < tot \<Longrightarrow>
   assign_normalized (tw, tot) amt acc =
     fold (\<lambda>x acc. AList.update (fst x) ((snd x / tot) * amt) acc) tw acc"
  by (simp add: assign_normalized_def case_prod_unfold)









section \<open>Non-negative attribution values\<close>

lemma nonneg_values_Nil: "nonneg_values []"
  by (simp add: nonneg_values_def)

lemma nonneg_values_update:
  "nonneg_values al \<Longrightarrow> 0 \<le> v \<Longrightarrow> nonneg_values (AList.update k v al)"
  by (induction al) (auto simp: nonneg_values_def)

lemma nonneg_values_fold_update:
  "nonneg_values acc \<Longrightarrow> (\<And>x. x \<in> set xs \<Longrightarrow> 0 \<le> val x) \<Longrightarrow>
   nonneg_values (fold (\<lambda>x acc. AList.update (key x) (val x) acc) xs acc)"
  by (induction xs arbitrary: acc) (simp_all add: nonneg_values_update)

lemma nonneg_values_get: "nonneg_values m \<Longrightarrow> 0 \<le> dict_get (map_of m) k 0"
  by (auto simp: nonneg_values_def dict_get_def split: option.splits dest: map_of_SomeD)

lemma nonneg_assign_normalized:
  assumes "\<And>t. t \<in> set l \<Longrightarrow> 0 \<le> w t" and "0 \<le> amt" and "nonneg_values acc"
  shows "nonneg_values (assign_normalized (collect_weights w l) amt acc)"
proof (cases "0 < sum_list (map w l)")
  case True
  let ?tw = "fold (\<lambda>tp acc. AList.update (TouchpointData.touchpoint_id tp) (w tp) acc) l []"
  have tw: "nonneg_values ?tw"
    using assms(1) by (intro nonneg_values_fold_update nonneg_values_Nil)
  have "0 \<le> (snd x / sum_list (map w l)) * amt" if "x \<in> set ?tw" for x
    using that tw True assms(2) by (cases x) (auto simp: nonneg_values_def)
  then show ?thesis
    using True assms(3)
    by (simp add: collect_weights_eq assign_normalized_fold nonneg_values_fold_update)
next
  case False
  then show ?thesis using assms(3) by (simp add: collect_weights_eq assign_normalized_def)
qed

lemma time_decay_nonneg:
  assumes "\<forall>opp \<in> set opps. 0 \<le> amount opp"
  shows "nonneg_values (calculate_b2b_time_decay tps opps avg)"
  unfolding calculate_b2b_time_decay_def
proof (rule fold_invariant[where Q = "\<lambda>opp. 0 \<le> amount opp" and P = nonneg_values])
  show "0 \<le> amount opp" if "opp \<in> set opps" for opp using that assms by simp
  show "nonneg_values []" by (rule nonneg_values_Nil)
  show "nonneg_values (time_decay_opportunity tps avg opp acc)"
    if "0 \<le> amount opp" "nonneg_values acc" for opp acc
    using that
    by (simp add: time_decay_opportunity_def Let_def nonneg_assign_normalized
        less_imp_le[OF time_decay_weight_pos])
qed

lemma map_of_fold_update_pairs:
  "map_of (fold (\<lambda>(k, v) d. AList.update k v d) ps acc) k = Some v \<Longrightarrow>
   (k, v) \<in> set ps \<or> map_of acc k = Some v"
proof (induction ps arbitrary: acc)
  case Nil
  then show ?case by simp
next
  case (Cons p ps)
  obtain a b where p: "p = (a, b)" by (cases p)
  from Cons.prems have "map_of (fold (\<lambda>(k, v) d. AList.update k v d) ps (AList.update a b acc)) k
      = Some v" by (simp add: p)
  from Cons.IH[OF this] show ?case
    by (auto simp: p update_conv' split: if_splits)
qed

lemma map_of_dict_of_pairs: "map_of (dict_of_pairs ps) k = Some v \<Longrightarrow> (k, v) \<in> set ps"
  unfolding dict_of_pairs_def using map_of_fold_update_pairs[of ps "[]" k v] by simp

lemma quality_multiplier_pos: "0 < dict_get lead_quality_multipliers tier 1"
  by (simp add: dict_get_def lead_quality_multipliers_def)

lemma lead_quality_weight_nonneg:
  assumes "0 \<le> engagement_score t" and "0 \<le> lead_score lead"
      and "0 \<le> demographic_score lead" and "0 \<le> firmographic_score lead"
  shows "0 \<le> lead_quality_weight lead t"
  unfolding lead_quality_weight_def Let_def
  using assms quality_multiplier_pos[of "lead_quality_tier lead"]
  by (intro mult_nonneg_nonneg) (simp_all add: less_imp_le)

lemma quality_nonneg:
  assumes "data_model_preconditions leads opps tps"
  shows "nonneg_values (calculate_lead_quality_impact leads tps)"
  unfolding calculate_lead_quality_impact_def Let_def
proof (rule fold_invariant[where Q = "\<lambda>t. t \<in> set tps" and P = nonneg_values])
  show "nonneg_values []" by (rule nonneg_values_Nil)
  show "t \<in> set tps" if "t \<in> set tps" for t by (rule that)
  show "nonneg_values
          (case map_of (dict_of_pairs (map (\<lambda>lead. (LeadData.lead_id lead, lead)) leads))
                  (TouchpointData.lead_id t) of
             None \<Rightarrow> acc
           | Some lead \<Rightarrow>
               AList.update (TouchpointData.touchpoint_id t) (lead_quality_weight lead t) acc)"
    if "t \<in> set tps" "nonneg_values acc" for t acc
  proof (cases "map_of (dict_of_pairs (map (\<lambda>lead. (LeadData.lead_id lead, lead)) leads))
                  (TouchpointData.lead_id t)")
    case None
    then show ?thesis using that by simp
  next
    case (Some lead)
    then have "lead \<in> set leads" by (auto dest: map_of_dict_of_pairs)
    then have "0 \<le> lead_quality_weight lead t"
      using assms that(1) by (intro lead_quality_weight_nonneg) (auto simp: data_model_preconditions_def)
    then show ?thesis using Some that(2) by (simp add: nonneg_values_update)
  qed
qed


lemma deal_size_multiplier_pos: "0 < get_deal_size_multiplier tier"
  by (simp add: get_deal_size_multiplier_def dict_get_def)

lemma account_complexity_pos: "0 < calculate_account_complexity opp"
  by (simp add: calculate_account_complexity_def Let_def)

lemma account_weight_nonneg:
  assumes "0 \<le> engagement_score t"
      and "0 \<le> decision_makers_count opp" and "0 \<le> influencers_count opp"
  shows "0 \<le> account_weight opp t"
proof -
  have b: "0 \<le> dict_get touchpoint_type_weights (touchpoint_type t) 1.0
                * (engagement_score t / 100.0)"
    using assms(1) type_weight_pos[of "touchpoint_type t"] by simp
  have c: "0 \<le> 1 + real_of_int (decision_makers_count opp + influencers_count opp) * 0.1"
    using assms(2,3) by simp
  show ?thesis
    unfolding account_weight_def Let_def
    using b c account_complexity_pos[of opp] deal_size_multiplier_pos[of "deal_size_tier opp"]
    by (intro mult_nonneg_nonneg) (auto simp: less_imp_le)
qed

lemma group_by_account_members:
  "map_of (group_by_account tps) a = Some l \<Longrightarrow> set l \<subseteq> set tps"
proof -
  let ?P = "\<lambda>m. \<forall>a l. map_of m a = Some l \<longrightarrow> set l \<subseteq> set tps"
  have "?P (group_by_account tps)"
    unfolding group_by_account_def
  proof (rule fold_invariant[where Q = "\<lambda>t. t \<in> set tps" and P = ?P])
    show "?P []" by simp
    show "t \<in> set tps" if "t \<in> set tps" for t by (rule that)
    show "?P (case map_of m (TouchpointData.account_id t) of
               None \<Rightarrow> AList.update (TouchpointData.account_id t) [t] m
             | Some tps' \<Rightarrow> AList.update (TouchpointData.account_id t) (tps' @ [t]) m)"
      if "t \<in> set tps" "?P m" for t m
      using that by (auto simp: update_conv' split: option.splits if_splits)
  qed
  then show "map_of (group_by_account tps) a = Some l \<Longrightarrow> set l \<subseteq> set tps" by blast
qed

lemma account_nonneg:
  assumes "data_model_preconditions leads opps tps"
  shows "nonneg_values (calculate_account_level_attribution opps tps)"
  unfolding calculate_account_level_attribution_def
proof (rule fold_invariant[where Q = "\<lambda>opp. opp \<in> set opps" and P = nonneg_values])
  show "nonneg_values []" by (rule nonneg_values_Nil)
  show "opp \<in> set opps" if "opp \<in> set opps" for opp by (rule that)
  show "nonneg_values (account_level_opportunity (group_by_account tps) opp acc)"
    if "opp \<in> set opps" "nonneg_values acc" for opp acc
  proof -
    let ?l = "dict_get (map_of (group_by_account tps)) (OpportunityData.account_id opp) []"
    have sub: "set ?l \<subseteq> set tps"
    proof (cases "map_of (group_by_account tps) (OpportunityData.account_id opp)")
      case None
      then show ?thesis by (simp add: dict_get_def)
    next
      case (Some l)
      then show ?thesis using group_by_account_members[OF Some] by (simp add: dict_get_def)
    qed
    have o: "0 \<le> amount opp" "0 \<le> decision_makers_count opp" "0 \<le> influencers_count opp"
      using assms that(1) by (auto simp: data_model_preconditions_def)
    have "0 \<le> account_weight opp t" if "t \<in> set ?l" for t
      using that sub assms o by (intro account_weight_nonneg) (auto simp: data_model_preconditions_def)
    then have "nonneg_values (assign_normalized (collect_weights (account_weight opp) ?l) (amount opp) acc)"
      using o(1) that(2) by (intro nonneg_assign_normalized)
    then show ?thesis using that(2) by (simp add: account_level_opportunity_def Let_def)
  qed
qed

lemma stage_weight_pos: "0 < dict_get stage_progression_weights st 1"
  by (cases st) (simp_all add: dict_get_def)

lemma stage_nonneg:
  assumes "data_model_preconditions leads opps tps"
  shows "nonneg_values (calculate_stage_progression_attribution tps)"
  unfolding calculate_stage_progression_attribution_def
proof (rule nonneg_values_fold_update[OF nonneg_values_Nil])
  fix t assume "t \<in> set tps"
  then have "0 \<le> engagement_score t" using assms by (auto simp: data_model_preconditions_def)
  then show "0 \<le> stage_progression_weight t"
    unfolding stage_progression_weight_def Let_def
    using stage_weight_pos[of "stage_influence t"] type_weight_pos[of "touchpoint_type t"]
    by (intro mult_nonneg_nonneg) (simp_all add: less_imp_le)
qed

lemma expected_cycle_pos: "0 < get_expected_cycle_days tier"
  by (simp add: get_expected_cycle_days_def dict_get_def)

lemma velocity_bonus_pos: "0 < velocity_bonus opp"
proof -
  have e: "0 < real_of_int (get_expected_cycle_days (deal_size_tier opp))"
    using expected_cycle_pos[of "deal_size_tier opp"] by simp
  show ?thesis
  proof (cases "sales_cycle_days opp < get_expected_cycle_days (deal_size_tier opp)")
    case True
    then have "0 \<le> real_of_int (get_expected_cycle_days (deal_size_tier opp) - sales_cycle_days opp)
                  / real_of_int (get_expected_cycle_days (deal_size_tier opp))"
      using e by (intro divide_nonneg_pos) simp_all
    then show ?thesis using True by (simp add: velocity_bonus_def Let_def)
  next
    case False
    then show ?thesis by (simp add: velocity_bonus_def Let_def less_max_iff_disj)
  qed
qed

lemma velocity_weight_nonneg: "0 \<le> engagement_score t \<Longrightarrow> 0 \<le> velocity_weight opp t"
  using velocity_bonus_pos[of opp] by (simp add: velocity_weight_def Let_def less_imp_le)

lemma velocity_nonneg:
  assumes "data_model_preconditions leads opps tps"
  shows "nonneg_values (calculate_pipeline_velocity_impact opps tps)"
  unfolding calculate_pipeline_velocity_impact_def
proof (rule fold_invariant[where Q = "\<lambda>opp. True" and P = nonneg_values])
  show "nonneg_values []" by (rule nonneg_values_Nil)
  show "True" by simp
  show "nonneg_values (velocity_opportunity tps opp acc)" if "nonneg_values acc" for opp acc
    unfolding velocity_opportunity_fold
  proof (rule nonneg_values_fold_update[OF that])
    fix t assume "t \<in> set (filter (\<lambda>tp. TouchpointData.account_id tp = OpportunityData.account_id opp) tps)"
    then have "0 \<le> engagement_score t" using assms by (auto simp: data_model_preconditions_def)
    then show "0 \<le> velocity_weight opp t" by (rule velocity_weight_nonneg)
  qed
qed

lemma combine_loop_total:
  "combine_loop (\<lambda>k. Inr (g k)) ids acc = Inr (fold (\<lambda>k acc. AList.update k (g k) acc) ids acc)"
  by (induction ids arbitrary: acc) simp_all

lemma combined_score_default:
  "combined_score tw qw ab sw vi default_weights k =
     Inr (dict_get (map_of tw) k 0 * 0.25 + dict_get (map_of qw) k 0 * 0.25
          + dict_get (map_of ab) k 0 * 0.25 + dict_get (map_of sw) k 0 * 0.15
          + dict_get (map_of vi) k 0 * 0.10)"
  by (simp add: combined_score_def weight_of_def bind_def default_weights_def)

lemma combine_default_nonneg:
  assumes "nonneg_values tw" "nonneg_values qw" "nonneg_values ab" "nonneg_values sw"
      "nonneg_values vi"
  shows "\<exists>c. combine_b2b_attribution_factors set_order tw qw ab sw vi None = Inr c
             \<and> nonneg_values c"
proof -
  let ?g = "\<lambda>k. dict_get (map_of tw) k 0 * 0.25 + dict_get (map_of qw) k 0 * 0.25
          + dict_get (map_of ab) k 0 * 0.25 + dict_get (map_of sw) k 0 * 0.15
          + dict_get (map_of vi) k 0 * 0.10"
  have g: "0 \<le> ?g k" for k
    using assms[THEN nonneg_values_get, of k] by simp
  let ?ids = "set_order (concat (map (map fst) [tw, qw, ab, sw, vi]))"
  have n: "nonneg_values (fold (\<lambda>k acc. AList.update k (?g k) acc) ?ids [])"
    using g by (intro nonneg_values_fold_update nonneg_values_Nil)
  have eq: "combine_b2b_attribution_factors set_order tw qw ab sw vi None
              = Inr (fold (\<lambda>k acc. AList.update k (?g k) acc) ?ids [])"
  proof -
    have cs: "combined_score tw qw ab sw vi default_weights = (\<lambda>k. Inr (?g k))"
      by (rule ext) (rule combined_score_default)
    show ?thesis
      unfolding combine_b2b_attribution_factors_def Let_def option.case cs combine_loop_total
      by (rule refl)
  qed
  show ?thesis using n eq by blast
qed

text \<open>
  Claim C7. For every input that satisfies the preconditions of the data model, every
  value of each of the five factor maps and of the combined map is at least 0: the five
  calculators return such maps, the combiner with the default weights returns (it does
  not raise) such a map, and whenever the master model returns a result, its six maps are
  such maps. Values are real numbers in this embedding, so every value is finite.
\<close>

theorem attribution_values_nonnegative:
  assumes "data_model_preconditions leads opps tps"
  shows "nonneg_values (calculate_b2b_time_decay tps opps 180)
       \<and> nonneg_values (calculate_lead_quality_impact leads tps)
       \<and> nonneg_values (calculate_account_level_attribution opps tps)
       \<and> nonneg_values (calculate_stage_progression_attribution tps)
       \<and> nonneg_values (calculate_pipeline_velocity_impact opps tps)
       \<and> (\<exists>c. combine_b2b_attribution_factors set_order
                 (calculate_b2b_time_decay tps opps 180)
                 (calculate_lead_quality_impact leads tps)
                 (calculate_account_level_attribution opps tps)
                 (calculate_stage_progression_attribution tps)
                 (calculate_pipeline_velocity_impact opps tps) None = Inr c
               \<and> nonneg_values c)
       \<and> (\<forall>r. b2b_specific_attribution set_order leads opps tps = Inr r \<longrightarrow>
             nonneg_values (time_weighted_attribution r)
             \<and> nonneg_values (quality_weighted_attribution r)
             \<and> nonneg_values (account_based_attribution r)
             \<and> nonneg_values (stage_progression_attribution r)
             \<and> nonneg_values (pipeline_velocity_attribution r)
             \<and> nonneg_values (combined_b2b_attribution r))"
proof -
  have t: "nonneg_values (calculate_b2b_time_decay tps opps 180)"
    using assms by (intro time_decay_nonneg) (simp add: data_model_preconditions_def)
  note q = quality_nonneg[OF assms] and a = account_nonneg[OF assms]
    and s = stage_nonneg[OF assms] and v = velocity_nonneg[OF assms]
  from combine_default_nonneg[OF t q a s v, of set_order]
  obtain c where c: "combine_b2b_attribution_factors set_order
                 (calculate_b2b_time_decay tps opps 180)
                 (calculate_lead_quality_impact leads tps)
                 (calculate_account_level_attribution opps tps)
                 (calculate_stage_progression_attribution tps)
                 (calculate_pipeline_velocity_impact opps tps) None = Inr c"
    and nc: "nonneg_values c" by blast
  have "nonneg_values (time_weighted_attribution r)
             \<and> nonneg_values (quality_weighted_attribution r)
             \<and> nonneg_values (account_based_attribution r)
             \<and> nonneg_values (stage_progression_attribution r)
             \<and> nonneg_values (pipeline_velocity_attribution r)
             \<and> nonneg_values (combined_b2b_attribution r)"
    if "b2b_specific_attribution set_order leads opps tps = Inr r" for r
    using that t q a s v c nc
    by (auto simp: b2b_specific_attribution_def Let_def bind_def split: sum.splits)
  then show ?thesis using t q a s v c nc by blast
qed


lemma master_model_succeeds:
  "isl (b2b_specific_attribution remdups [lead_b] [opp_100] [tp_email]) = False"
  by (simp add: b2b_specific_attribution_def factor_defs combine_defs input_defs
      generate_attribution_summary_def sorted_touchpoints_def Let_def)

theorem attribution_values_nonnegative_witness:
  "data_model_preconditions [lead_b] [opp_100] [tp_email]
   \<and> isl (b2b_specific_attribution remdups [lead_b] [opp_100] [tp_email]) = False
   \<and> nonneg_values (calculate_b2b_time_decay [tp_email] [opp_100] 180)
   \<and> nonneg_values (calculate_lead_quality_impact [lead_b] [tp_email])
   \<and> nonneg_values (calculate_account_level_attribution [opp_100] [tp_email])
   \<and> nonneg_values (calculate_stage_progression_attribution [tp_email])
   \<and> nonneg_values (calculate_pipeline_velocity_impact [opp_100] [tp_email])
   \<and> nonneg_values (case b2b_specific_attribution remdups [lead_b] [opp_100] [tp_email] of
                       Inr r \<Rightarrow> combined_b2b_attribution r | Inl e \<Rightarrow> [])"
proof -
  have h: "data_model_preconditions [lead_b] [opp_100] [tp_email]"
    by (simp add: data_model_preconditions_def input_defs)
  from attribution_values_nonnegative[OF h, of remdups] master_model_succeeds h
  show ?thesis
    by (cases "b2b_specific_attribution remdups [lead_b] [opp_100] [tp_email]") simp_all
qed

end
